theory Spec2Isabelle
  imports Main
begin

section \<open>Ragworks: a shallow embedding of Finalapp.py\<close>

text \<open>
  Finalapp.py is a Streamlit script: every user interaction executes the whole script
  once, against two pieces of state that outlive the execution, the SQLite file
  \<^verbatim>\<open>users.db\<close> and the browser session's \<^verbatim>\<open>st.session_state\<close>.
  The embedding passes both explicitly. What the script calls but does not contain
  (the bcrypt context of passlib, PyPDF2's reader, the Gemini client, the widgets)
  appears as a parameter or as an input of one execution.
\<close>

subsection \<open>Exceptions\<close>

datatype py_error =
    AttributeError string
  | IntegrityError
  | PdfReadError

subsection \<open>The database \<^verbatim>\<open>users.db\<close>\<close>

text \<open>
  \<^verbatim>\<open>init_db\<close> creates two tables. Both keys are INTEGER PRIMARY KEY AUTOINCREMENT, so a
  table is its rows in insertion order together with the largest key handed out so far.
  A Python \<^verbatim>\<open>None\<close> bound to the \<^verbatim>\<open>user_id\<close> column is stored as NULL, hence the option.
\<close>

record user_row =
  user_row_id :: int
  user_row_username :: string
  user_row_password_hash :: string

record chat_row =
  chat_row_id :: int
  chat_row_user_id :: "int option"
  chat_row_role :: string
  chat_row_content :: string

record database =
  users :: "user_row list"
  users_seq :: int
  chat_history :: "chat_row list"
  chat_history_seq :: int

definition empty_db :: database where
  "empty_db = \<lparr>users = [], users_seq = 0, chat_history = [], chat_history_seq = 0\<rparr>"

text \<open>
  \<^verbatim>\<open>CREATE TABLE IF NOT EXISTS\<close>, twice: nothing happens to tables that exist, and the
  tables of a fresh file are those of \<^const>\<open>empty_db\<close>.
\<close>

definition init_db :: "database \<Rightarrow> database" where
  "init_db d = d"

text \<open>
  \<^verbatim>\<open>INSERT INTO users (username, password_hash) VALUES (?, ?)\<close>: the column
  \<^verbatim>\<open>username\<close> is UNIQUE, and a second row with the same text raises
  \<^verbatim>\<open>sqlite3.IntegrityError\<close>; the statement then leaves no trace.
\<close>

definition insert_user :: "string \<Rightarrow> string \<Rightarrow> database \<Rightarrow> py_error + database" where
  "insert_user u h d =
     (if u \<in> set (map user_row_username (users d)) then Inl IntegrityError
      else Inr (d\<lparr>users := users d @
                    [\<lparr>user_row_id = users_seq d + 1, user_row_username = u,
                      user_row_password_hash = h\<rparr>],
                  users_seq := users_seq d + 1\<rparr>))"

text \<open>
  \<^verbatim>\<open>register_user\<close>. The first argument is \<^verbatim>\<open>pwd_context.hash\<close> with the salt it draws
  made an argument, the second that salt. The \<^verbatim>\<open>try\<close> catches IntegrityError alone; any
  other exception leaves the function.
\<close>

definition register_user ::
  "(string \<Rightarrow> string \<Rightarrow> string) \<Rightarrow> string \<Rightarrow> string \<Rightarrow> string \<Rightarrow> database
     \<Rightarrow> (py_error + bool) \<times> database" where
  "register_user hash_password slt u p d =
     (let hashed_password = hash_password slt p in
      case insert_user u hashed_password d of
        Inr d' \<Rightarrow> (Inr True, d')
      | Inl IntegrityError \<Rightarrow> (Inr False, d)
      | Inl e \<Rightarrow> (Inl e, d))"

text \<open>
  \<^verbatim>\<open>login_user\<close>: \<^verbatim>\<open>fetchone\<close> yields the first row with the username, or None. The
  first argument is \<^verbatim>\<open>pwd_context.verify\<close>.
\<close>

definition login_user ::
  "(string \<Rightarrow> string \<Rightarrow> bool) \<Rightarrow> string \<Rightarrow> string \<Rightarrow> database \<Rightarrow> int option \<times> database" where
  "login_user verify_password u p d =
     (case find (\<lambda>r. user_row_username r = u) (users d) of
        None \<Rightarrow> (None, d)
      | Some user_data \<Rightarrow>
          if verify_password p (user_row_password_hash user_data)
          then (Some (user_row_id user_data), d)
          else (None, d))"

record message =
  role :: string
  content :: string

text \<open>
  \<^verbatim>\<open>WHERE user_id = ?\<close>: SQL's equality holds of no NULL, so a \<^verbatim>\<open>None\<close> selects nothing.
\<close>

definition sql_eq :: "int option \<Rightarrow> int option \<Rightarrow> bool" where
  "sql_eq a b = (case (a, b) of (Some x, Some y) \<Rightarrow> x = y | _ \<Rightarrow> False)"

definition get_chat_history :: "int option \<Rightarrow> database \<Rightarrow> message list \<times> database" where
  "get_chat_history uid d =
     (map (\<lambda>row. \<lparr>role = chat_row_role row, content = chat_row_content row\<rparr>)
        (filter (\<lambda>row. sql_eq (chat_row_user_id row) uid) (chat_history d)), d)"

definition save_message :: "int option \<Rightarrow> string \<Rightarrow> string \<Rightarrow> database \<Rightarrow> database" where
  "save_message uid r c d =
     d\<lparr>chat_history := chat_history d @
          [\<lparr>chat_row_id = chat_history_seq d + 1, chat_row_user_id = uid,
            chat_row_role = r, chat_row_content = c\<rparr>],
       chat_history_seq := chat_history_seq d + 1\<rparr>"

subsection \<open>Document processing\<close>

text \<open>
  An uploaded file is represented by what PyPDF2 makes of it: \<^verbatim>\<open>PdfReader(file)\<close> either
  raises or yields the pages, and \<^verbatim>\<open>page.extract_text()\<close> yields a string or None.
\<close>

datatype pdf_file = NotPdf | PdfPages "string option list"

text \<open>Python's \<^verbatim>\<open>x or ""\<close> for a string or None.\<close>

definition or_empty :: "string option \<Rightarrow> string" where
  "or_empty x = (case x of None \<Rightarrow> [] | Some s \<Rightarrow> if s = [] then [] else s)"

fun extract_loop :: "string \<Rightarrow> string option list \<Rightarrow> string" where
  "extract_loop text [] = text"
| "extract_loop text (page # pages) = extract_loop (text @ or_empty page) pages"

definition extract_text_from_pdf :: "pdf_file \<Rightarrow> py_error + string" where
  "extract_text_from_pdf file =
     (case file of NotPdf \<Rightarrow> Inl PdfReadError
      | PdfPages pages \<Rightarrow> Inr (extract_loop [] pages))"

subsection \<open>The session and one execution of the script\<close>

text \<open>
  \<^verbatim>\<open>st.session_state\<close> holds the five keys the script uses. A key that was never
  assigned is absent (the outer \<open>None\<close>), and reading an absent key as an attribute
  raises AttributeError: the script itself tests \<^verbatim>\<open>"logged_in" not in st.session_state\<close>
  and \<^verbatim>\<open>"messages" not in st.session_state\<close> before it reads those two. A key that is
  present holds a Python value, which for three of the keys may be \<^verbatim>\<open>None\<close> (the inner
  \<open>None\<close>).
\<close>

record session_state =
  logged_in :: "bool option"
  user_id :: "int option option"
  username :: "string option option"
  document_content :: "string option option"
  messages :: "message list option"

definition fresh_session :: session_state where
  "fresh_session = \<lparr>logged_in = None, user_id = None, username = None,
                      document_content = None, messages = None\<rparr>"

text \<open>
  What one execution of the script reads from outside: the widgets (named after the
  Streamlit calls), the salt \<^verbatim>\<open>pwd_context.hash\<close> draws, and the model service,
  \<^verbatim>\<open>generate_content\<close> followed by \<^verbatim>\<open>.text\<close>: \<open>Inr\<close> the reply, \<open>Inl\<close> the text of the
  exception raised.
\<close>

datatype choice = Login | Register

record inputs =
  selectbox :: choice
  text_username :: string
  text_password :: string
  button_login :: bool
  text_new_username :: string
  text_new_password :: string
  button_register :: bool
  file_uploader :: "pdf_file option"
  button_logout :: bool
  chat_input :: "string option"
  salt :: string
  generate_content :: "string \<Rightarrow> string + string"

text \<open>
  The state an execution works on: the database, the session, and the prompts sent to
  the model service so far.
\<close>

record world =
  users_db :: database
  session :: session_state
  requests :: "string list"

definition initial_world :: world where
  "initial_world = \<lparr>users_db = empty_db, session = fresh_session, requests = []\<rparr>"

text \<open>
  An execution runs to its end, stops at \<^verbatim>\<open>st.rerun()\<close>, or stops at an uncaught
  exception. What it wrote before it stopped stays written.
\<close>

datatype outcome = Completed | Rerun | Raised py_error

text \<open>Lines 181 to 184: the upload in the sidebar.\<close>

definition sidebar_upload :: "inputs \<Rightarrow> world \<Rightarrow> py_error + world" where
  "sidebar_upload inp w =
     (case file_uploader inp of
        None \<Rightarrow> Inr w
      | Some uploaded_file \<Rightarrow>
          (case extract_text_from_pdf uploaded_file of
             Inl e \<Rightarrow> Inl e
           | Inr text \<Rightarrow> Inr (w\<lparr>session := (session w)\<lparr>document_content := Some (Some text)\<rparr>\<rparr>)))"

text \<open>Lines 187 to 190: the four assignments of the Logout button.\<close>

definition logout :: "world \<Rightarrow> world" where
  "logout w =
     w\<lparr>session := (session w)\<lparr>logged_in := Some False, user_id := Some None,
                               username := Some None, document_content := Some None\<rparr>\<rparr>"

text \<open>Lines 194 and 195: the transcript is read from the database when it is absent or empty.\<close>

definition init_messages :: "world \<Rightarrow> py_error + world" where
  "init_messages w =
     (if messages (session w) = None \<or> messages (session w) = Some [] then
        (case user_id (session w) of
           None \<Rightarrow> Inl (AttributeError ''user_id'')
         | Some uid \<Rightarrow>
             (case get_chat_history uid (users_db w) of
                (history, d) \<Rightarrow>
                  Inr (w\<lparr>users_db := d, session := (session w)\<lparr>messages := Some history\<rparr>\<rparr>)))
      else Inr w)"

text \<open>Lines 213 to 227: the reply to a question, given the value of \<^verbatim>\<open>document_content\<close>.\<close>

definition full_prompt :: "string \<Rightarrow> string \<Rightarrow> string" where
  "full_prompt context prompt =
     ''Based on the following document content, answer the user's question. '' @
     ''Document: '' @ context @ ''\<newline>\<newline>User Question: '' @ prompt"

definition no_document :: string where
  "no_document = ''Please upload a document first to enable the RAG feature.''"

definition answer ::
  "(string \<Rightarrow> string + string) \<Rightarrow> string option \<Rightarrow> string \<Rightarrow> string list \<Rightarrow> string \<times> string list" where
  "answer gen doc prompt reqs =
     (case doc of
        None \<Rightarrow> (no_document, reqs)
      | Some context \<Rightarrow>
          if context = [] then (no_document, reqs)
          else (case gen (full_prompt context prompt) of
                  Inr text \<Rightarrow> (text, reqs @ [full_prompt context prompt])
                | Inl e \<Rightarrow> (''An error occurred: '' @ e, reqs @ [full_prompt context prompt])))"

text \<open>\<^verbatim>\<open>st.session_state.messages.append(m)\<close>.\<close>

definition append_message :: "message \<Rightarrow> world \<Rightarrow> py_error + world" where
  "append_message m w =
     (case messages (session w) of
        None \<Rightarrow> Inl (AttributeError ''messages'')
      | Some ms \<Rightarrow> Inr (w\<lparr>session := (session w)\<lparr>messages := Some (ms @ [m])\<rparr>\<rparr>))"

text \<open>\<^verbatim>\<open>save_message(st.session_state.user_id, r, c)\<close>.\<close>

definition save_turn :: "string \<Rightarrow> string \<Rightarrow> world \<Rightarrow> py_error + world" where
  "save_turn r c w =
     (case user_id (session w) of
        None \<Rightarrow> Inl (AttributeError ''user_id'')
      | Some uid \<Rightarrow> Inr (w\<lparr>users_db := save_message uid r c (users_db w)\<rparr>))"

text \<open>Lines 204 to 234: a submitted question.\<close>

definition handle_prompt :: "inputs \<Rightarrow> string \<Rightarrow> world \<Rightarrow> outcome \<times> world" where
  "handle_prompt inp prompt w =
     (case append_message \<lparr>role = ''user'', content = prompt\<rparr> w of
        Inl e \<Rightarrow> (Raised e, w)
      | Inr w1 \<Rightarrow>
     (case save_turn ''user'' prompt w1 of
        Inl e \<Rightarrow> (Raised e, w1)
      | Inr w2 \<Rightarrow>
     (case document_content (session w2) of
        None \<Rightarrow> (Raised (AttributeError ''document_content''), w2)
      | Some doc \<Rightarrow>
     (case answer (generate_content inp) doc prompt (requests w2) of
        (ai_response, reqs) \<Rightarrow>
     (case append_message \<lparr>role = ''assistant'', content = ai_response\<rparr> (w2\<lparr>requests := reqs\<rparr>) of
        Inl e \<Rightarrow> (Raised e, w2\<lparr>requests := reqs\<rparr>)
      | Inr w4 \<Rightarrow>
     (case save_turn ''assistant'' ai_response w4 of
        Inl e \<Rightarrow> (Raised e, w4)
      | Inr w5 \<Rightarrow> (Completed, w5)))))))"

text \<open>
  \<^verbatim>\<open>main_app\<close>. Line 173 reads \<^verbatim>\<open>username\<close>; the Logout button ends the execution at
  \<^verbatim>\<open>st.rerun()\<close>; \<^verbatim>\<open>if prompt := st.chat_input(...)\<close> takes a nonempty string.
\<close>

definition main_app :: "inputs \<Rightarrow> world \<Rightarrow> outcome \<times> world" where
  "main_app inp w =
     (case username (session w) of
        None \<Rightarrow> (Raised (AttributeError ''username''), w)
      | Some _ \<Rightarrow>
     (case sidebar_upload inp w of
        Inl e \<Rightarrow> (Raised e, w)
      | Inr w1 \<Rightarrow>
          if button_logout inp then (Rerun, logout w1)
          else
     (case init_messages w1 of
        Inl e \<Rightarrow> (Raised e, w1)
      | Inr w2 \<Rightarrow>
     (case chat_input inp of
        None \<Rightarrow> (Completed, w2)
      | Some prompt \<Rightarrow>
          if prompt = [] then (Completed, w2) else handle_prompt inp prompt w2))))"

text \<open>\<^verbatim>\<open>login_page\<close>. \<^verbatim>\<open>if user_id:\<close> takes an integer other than 0.\<close>

definition truthy_id :: "int option \<Rightarrow> bool" where
  "truthy_id uid = (case uid of None \<Rightarrow> False | Some i \<Rightarrow> i \<noteq> 0)"

definition login_page ::
  "(string \<Rightarrow> string \<Rightarrow> string) \<Rightarrow> (string \<Rightarrow> string \<Rightarrow> bool) \<Rightarrow> inputs \<Rightarrow> world \<Rightarrow> outcome \<times> world" where
  "login_page hash_password verify_password inp w =
     (case selectbox inp of
        Login \<Rightarrow>
          if button_login inp then
            (case login_user verify_password (text_username inp) (text_password inp) (users_db w) of
               (uid, d) \<Rightarrow>
                 if truthy_id uid then
                   (Rerun, w\<lparr>users_db := d,
                             session := (session w)\<lparr>logged_in := Some True, user_id := Some uid,
                                                     username := Some (Some (text_username inp))\<rparr>\<rparr>)
                 else (Completed, w\<lparr>users_db := d\<rparr>))
          else (Completed, w)
      | Register \<Rightarrow>
          if button_register inp then
            (case register_user hash_password (salt inp) (text_new_username inp)
                    (text_new_password inp) (users_db w) of
               (Inl e, d) \<Rightarrow> (Raised e, w\<lparr>users_db := d\<rparr>)
             | (Inr ok, d) \<Rightarrow> (Completed, w\<lparr>users_db := d\<rparr>))
          else (Completed, w))"

text \<open>The entry point, lines 268 to 277.\<close>

definition script ::
  "(string \<Rightarrow> string \<Rightarrow> string) \<Rightarrow> (string \<Rightarrow> string \<Rightarrow> bool) \<Rightarrow> inputs \<Rightarrow> world \<Rightarrow> outcome \<times> world" where
  "script hash_password verify_password inp w =
     (let w0 = w\<lparr>users_db := init_db (users_db w)\<rparr>;
          w1 = (if logged_in (session w0) = None
                then w0\<lparr>session := (session w0)\<lparr>logged_in := Some False\<rparr>\<rparr> else w0)
      in if logged_in (session w1) = Some True then main_app inp w1
         else login_page hash_password verify_password inp w1)"

text \<open>A session is a sequence of executions, each on the state the one before left.\<close>

fun runs ::
  "(string \<Rightarrow> string \<Rightarrow> string) \<Rightarrow> (string \<Rightarrow> string \<Rightarrow> bool) \<Rightarrow> inputs list \<Rightarrow> world \<Rightarrow> world" where
  "runs hash_password verify_password [] w = w"
| "runs hash_password verify_password (inp # inps) w =
     runs hash_password verify_password inps (snd (script hash_password verify_password inp w))"

subsection \<open>Sequences of calls, and the contract of the password context\<close>

text \<open>A sequence of \<^verbatim>\<open>save_message\<close> calls, each with its user, role and content.\<close>

fun save_messages :: "(int option \<times> string \<times> string) list \<Rightarrow> database \<Rightarrow> database" where
  "save_messages [] d = d"
| "save_messages ((uid, r, c) # calls) d = save_messages calls (save_message uid r c d)"

text \<open>A sequence of \<^verbatim>\<open>register_user\<close> calls, each with its salt, username and password.\<close>

fun register_all ::
  "(string \<Rightarrow> string \<Rightarrow> string) \<Rightarrow> (string \<times> string \<times> string) list \<Rightarrow> database \<Rightarrow> database" where
  "register_all hash_password [] d = d"
| "register_all hash_password ((slt, u, p) # calls) d =
     register_all hash_password calls (snd (register_user hash_password slt u p d))"

text \<open>
  What the script relies on of passlib: a hash verifies against the password it was
  made from, whatever the salt, and against no other.
\<close>

definition pwd_context_ok :: "(string \<Rightarrow> string \<Rightarrow> string) \<Rightarrow> (string \<Rightarrow> string \<Rightarrow> bool) \<Rightarrow> bool" where
  "pwd_context_ok hash_password verify_password =
     (\<forall>slt p q. verify_password q (hash_password slt p) = (q = p))"

subsection \<open>Concrete inputs\<close>

text \<open>
  A stand-in for the password context in closed examples: it keeps the password and
  drops the salt. It meets \<^const>\<open>pwd_context_ok\<close>, and nothing else is asked of it.
\<close>

definition plain_hash :: "string \<Rightarrow> string \<Rightarrow> string" where
  "plain_hash slt p = p"

definition plain_verify :: "string \<Rightarrow> string \<Rightarrow> bool" where
  "plain_verify q h = (h = q)"

text \<open>An execution in which no widget is used and the model service would reply \<open>ok\<close>.\<close>

definition idle :: inputs where
  "idle = \<lparr>selectbox = Login, text_username = [], text_password = [], button_login = False,
            text_new_username = [], text_new_password = [], button_register = False,
            file_uploader = None, button_logout = False, chat_input = None, salt = [],
            generate_content = (\<lambda>prompt. Inr ''ok'')\<rparr>"

definition register_click :: "string \<Rightarrow> string \<Rightarrow> inputs" where
  "register_click u p =
     idle\<lparr>selectbox := Register, text_new_username := u, text_new_password := p,
          button_register := True\<rparr>"

definition login_click :: "string \<Rightarrow> string \<Rightarrow> inputs" where
  "login_click u p = idle\<lparr>text_username := u, text_password := p, button_login := True\<rparr>"

definition question :: "string \<Rightarrow> inputs" where
  "question q = idle\<lparr>chat_input := Some q\<rparr>"

definition logout_click :: inputs where
  "logout_click = idle\<lparr>button_logout := True\<rparr>"

text \<open>
  The exchange of the specification's end-to-end example: a two-page PDF with the pages
  \<open>Hello\<close> and the empty page is uploaded and a question is asked in the same execution.
\<close>

definition upload_and_ask :: inputs where
  "upload_and_ask =
     idle\<lparr>file_uploader := Some (PdfPages [Some ''Hello'', Some []]),
          chat_input := Some ''What does it say?''\<rparr>"

text \<open>An execution in which the model service fails.\<close>

definition ask_failing_service :: inputs where
  "ask_failing_service =
     idle\<lparr>chat_input := Some ''What does it say?'',
          generate_content := (\<lambda>prompt. Inl ''429 quota exceeded'')\<rparr>"

text \<open>A logged-in session that holds a document and an empty transcript.\<close>

definition alice_with_document :: world where
  "alice_with_document =
     \<lparr>users_db = \<lparr>users = [\<lparr>user_row_id = 1, user_row_username = ''alice'',
                              user_row_password_hash = ''pw123''\<rparr>],
                   users_seq = 1, chat_history = [], chat_history_seq = 0\<rparr>,
      session = \<lparr>logged_in = Some True, user_id = Some (Some 1), username = Some (Some ''alice''),
                  document_content = Some (Some ''Hello''), messages = Some []\<rparr>,
      requests = []\<rparr>"

text \<open>
  Sessions, one element for each execution of the script; the execution that
  \<^verbatim>\<open>st.rerun()\<close> starts is the idle one after a login or a logout. Alice and bob
  register; alice logs in; she uploads, asks and logs out; bob logs in.
\<close>

definition alice_logs_in :: "inputs list" where
  "alice_logs_in =
     [register_click ''alice'' ''pw123'', register_click ''bob'' ''pw456'',
      login_click ''alice'' ''pw123'', idle]"

definition alice_logs_out :: "inputs list" where
  "alice_logs_out = alice_logs_in @ [upload_and_ask, logout_click, idle]"

definition bob_logs_in :: "inputs list" where
  "bob_logs_in = alice_logs_out @ [login_click ''bob'' ''pw456'', idle]"

text \<open>The roles the script writes.\<close>

abbreviation roles_ok :: "database \<Rightarrow> bool" where
  "roles_ok d \<equiv> \<forall>row \<in> set (chat_history d).
      chat_row_role row = ''user'' \<or> chat_row_role row = ''assistant''"

section \<open>Properties\<close>

subsection \<open>Document extraction\<close>

lemma extract_loop_concat: "extract_loop acc ps = acc @ concat (map or_empty ps)"
  by (induction ps arbitrary: acc) simp_all


subsection \<open>The conversation store\<close>

lemma get_chat_history_save_message:
  "fst (get_chat_history (Some u) (save_message uid r c d)) =
   fst (get_chat_history (Some u) d) @ (if uid = Some u then [\<lparr>role = r, content = c\<rparr>] else [])"
  by (simp add: get_chat_history_def save_message_def sql_eq_def split: option.split)

lemma get_chat_history_save_messages:
  "fst (get_chat_history (Some u) (save_messages calls d)) =
   fst (get_chat_history (Some u) d) @
   map (\<lambda>(uid, r, c). \<lparr>role = r, content = c\<rparr>) (filter (\<lambda>(uid, r, c). uid = Some u) calls)"
proof (induction calls arbitrary: d)
  case Nil
  show ?case by simp
next
  case (Cons call calls)
  obtain uid r c where call: "call = (uid, r, c)" by (cases call)
  show ?case
    by (simp add: call Cons.IH get_chat_history_save_message)
qed

text \<open>
  C2. After any sequence of \<^verbatim>\<open>save_message\<close> calls, \<^verbatim>\<open>get_chat_history\<close> for user \<open>u\<close>
  returns what it returned before followed by one entry \<open>{role, content}\<close> for each call
  made for \<open>u\<close>, in call order, whatever calls for other users lie in between. From
  the empty store, \<open>N\<close> calls for \<open>u\<close> give exactly those \<open>N\<close> entries; a user without
  messages gets the empty list; and \<^verbatim>\<open>get_chat_history\<close> leaves the store as it found
  it, so a second call returns what the first did.
\<close>

theorem history_returns_appends:
  "fst (get_chat_history (Some u) (save_messages calls d)) =
     fst (get_chat_history (Some u) d) @
     map (\<lambda>(uid, r, c). \<lparr>role = r, content = c\<rparr>) (filter (\<lambda>(uid, r, c). uid = Some u) calls)
   \<and> fst (get_chat_history (Some u) (save_messages (map (\<lambda>(r, c). (Some u, r, c)) turns) empty_db)) =
     map (\<lambda>(r, c). \<lparr>role = r, content = c\<rparr>) turns
   \<and> length (fst (get_chat_history (Some u)
         (save_messages (map (\<lambda>(r, c). (Some u, r, c)) turns) empty_db))) = length turns
   \<and> fst (get_chat_history uid empty_db) = []
   \<and> snd (get_chat_history uid d) = d
   \<and> get_chat_history uid (snd (get_chat_history uid d)) = get_chat_history uid d"
proof -
  have none: "fst (get_chat_history uid' empty_db) = []" for uid'
    by (simp add: get_chat_history_def empty_db_def)
  have own: "filter (\<lambda>(uid, r, c). uid = Some u) (map (\<lambda>(r, c). (Some u, r, c)) turns) =
      map (\<lambda>(r, c). (Some u, r, c)) turns"
    by (induction turns) auto
  have "map (\<lambda>(uid, r, c). \<lparr>role = r, content = c\<rparr>) (map (\<lambda>(r, c). (Some u, r, c)) turns) =
      map (\<lambda>(r, c). \<lparr>role = r, content = c\<rparr>) turns"
    by (induction turns) auto
  with own have exact:
    "fst (get_chat_history (Some u) (save_messages (map (\<lambda>(r, c). (Some u, r, c)) turns) empty_db)) =
     map (\<lambda>(r, c). \<lparr>role = r, content = c\<rparr>) turns"
    by (simp add: get_chat_history_save_messages none)
  have count: "length (fst (get_chat_history (Some u)
         (save_messages (map (\<lambda>(r, c). (Some u, r, c)) turns) empty_db))) = length turns"
    unfolding exact by simp
  have same: "snd (get_chat_history uid d) = d"
    by (simp add: get_chat_history_def)
  have again: "get_chat_history uid (snd (get_chat_history uid d)) = get_chat_history uid d"
    by (simp only: same)
  from get_chat_history_save_messages [of u calls d] exact count none [of uid] same again
  show ?thesis by blast
qed

subsection \<open>The credential store\<close>

lemma register_user_taken:
  "u \<in> set (map user_row_username (users d)) \<Longrightarrow> register_user h s u p d = (Inr False, d)"
  by (simp add: register_user_def insert_user_def)

lemma register_user_free:
  "u \<notin> set (map user_row_username (users d)) \<Longrightarrow>
   register_user h s u p d =
     (Inr True, d\<lparr>users := users d @ [\<lparr>user_row_id = users_seq d + 1, user_row_username = u,
                                        user_row_password_hash = h s p\<rparr>],
                  users_seq := users_seq d + 1\<rparr>)"
  by (simp add: register_user_def insert_user_def)

lemma register_user_then_taken:
  "u \<in> set (map user_row_username (users (snd (register_user h s u p d))))"
  by (cases "u \<in> set (map user_row_username (users d))")
     (simp_all add: register_user_taken register_user_free)

lemma register_user_twice:
  "register_user h s' u p' (snd (register_user h s u p d)) = (Inr False, snd (register_user h s u p d))"
  by (rule register_user_taken) (rule register_user_then_taken)




lemma register_user_distinct:
  "distinct (map user_row_username (users d)) \<Longrightarrow>
   distinct (map user_row_username (users (snd (register_user h s u p d))))"
  by (cases "u \<in> set (map user_row_username (users d))")
     (simp_all add: register_user_taken register_user_free)

lemma register_user_hashes:
  "\<forall>r \<in> set (users d). \<exists>s p. user_row_password_hash r = h s p \<Longrightarrow>
   \<forall>r \<in> set (users (snd (register_user h s u p d))). \<exists>s p. user_row_password_hash r = h s p"
  by (cases "u \<in> set (map user_row_username (users d))")
     (auto simp add: register_user_taken register_user_free)

lemma register_all_distinct:
  "distinct (map user_row_username (users d)) \<Longrightarrow>
   distinct (map user_row_username (users (register_all h calls d)))"
proof (induction calls arbitrary: d)
  case Nil
  then show ?case by simp
next
  case (Cons call calls)
  obtain s u p where call: "call = (s, u, p)" by (cases call)
  show ?case
    unfolding call register_all.simps
    by (rule Cons.IH) (rule register_user_distinct [OF Cons.prems])
qed

lemma register_all_hashes:
  "\<forall>r \<in> set (users d). \<exists>s p. user_row_password_hash r = h s p \<Longrightarrow>
   \<forall>r \<in> set (users (register_all h calls d)). \<exists>s p. user_row_password_hash r = h s p"
proof (induction calls arbitrary: d)
  case Nil
  then show ?case by simp
next
  case (Cons call calls)
  obtain s u p where call: "call = (s, u, p)" by (cases call)
  show ?case
    unfolding call register_all.simps
    by (rule Cons.IH) (rule register_user_hashes [OF Cons.prems])
qed

lemma find_by_distinct_key:
  "distinct (map f xs) \<Longrightarrow> (find (\<lambda>r. f r = k) xs = Some r) = (r \<in> set xs \<and> f r = k)"
  by (induction xs) (auto simp: image_iff)

lemma find_by_absent_key:
  "k \<notin> set (map f xs) \<Longrightarrow> find (\<lambda>r. f r = k) xs = None"
  by (induction xs) auto




subsection \<open>Evaluating concrete executions\<close>

lemmas model_defs =
  script_def login_page_def main_app_def handle_prompt_def answer_def full_prompt_def no_document_def
  init_messages_def logout_def sidebar_upload_def append_message_def save_turn_def truthy_id_def
  extract_text_from_pdf_def or_empty_def
  register_user_def insert_user_def login_user_def get_chat_history_def save_message_def sql_eq_def
  init_db_def empty_db_def fresh_session_def initial_world_def
  plain_hash_def plain_verify_def idle_def register_click_def login_click_def question_def
  logout_click_def upload_and_ask_def ask_failing_service_def alice_with_document_def
  alice_logs_in_def alice_logs_out_def bob_logs_in_def

subsection \<open>A submitted question\<close>

lemma answer_failure:
  "doc \<noteq> [] \<Longrightarrow> gen (full_prompt doc q) = Inl e \<Longrightarrow>
   answer gen (Some doc) q reqs = (''An error occurred: '' @ e, reqs @ [full_prompt doc q])"
  by (simp add: answer_def)

lemma handle_prompt_answered:
  assumes "messages (session w) = Some ms" and "user_id (session w) = Some uid"
    and "document_content (session w) = Some doc"
    and "answer (generate_content inp) doc q (requests w) = (reply, reqs)"
  shows "handle_prompt inp q w =
    (Completed,
     w\<lparr>users_db := save_message uid ''assistant'' reply (save_message uid ''user'' q (users_db w)),
       session := (session w)\<lparr>messages :=
          Some (ms @ [\<lparr>role = ''user'', content = q\<rparr>, \<lparr>role = ''assistant'', content = reply\<rparr>])\<rparr>,
       requests := reqs\<rparr>)"
  using assms by (simp add: handle_prompt_def append_message_def save_turn_def)

text \<open>
  C5. When a document is held and the model service raises, whatever the exception,
  the reply is the text \<open>An error occurred: \<close> followed by the exception's text; the
  execution completes instead of raising; and the reply is stored like any other, as
  the \<open>assistant\<close> row after the \<open>user\<close> row of the question, and appended to the
  transcript of the session.
\<close>

theorem service_failure_is_persisted:
  assumes "messages (session w) = Some ms" and "user_id (session w) = Some uid"
    and "document_content (session w) = Some (Some doc)" and "doc \<noteq> []"
    and "generate_content inp (full_prompt doc q) = Inl e"
  shows "fst (answer (generate_content inp) (Some doc) q (requests w)) = ''An error occurred: '' @ e
    \<and> fst (handle_prompt inp q w) = Completed
    \<and> chat_history (users_db (snd (handle_prompt inp q w))) =
        chat_history (users_db w) @
        [\<lparr>chat_row_id = chat_history_seq (users_db w) + 1, chat_row_user_id = uid,
          chat_row_role = ''user'', chat_row_content = q\<rparr>,
         \<lparr>chat_row_id = chat_history_seq (users_db w) + 2, chat_row_user_id = uid,
          chat_row_role = ''assistant'', chat_row_content = ''An error occurred: '' @ e\<rparr>]
    \<and> messages (session (snd (handle_prompt inp q w))) =
        Some (ms @ [\<lparr>role = ''user'', content = q\<rparr>,
                    \<lparr>role = ''assistant'', content = ''An error occurred: '' @ e\<rparr>])"
proof -
  have a: "answer (generate_content inp) (Some doc) q (requests w) =
      (''An error occurred: '' @ e, requests w @ [full_prompt doc q])"
    using assms(4) assms(5) by (rule answer_failure)
  note h = handle_prompt_answered [OF assms(1) assms(2) assms(3) a]
  show ?thesis
    unfolding h a by (simp add: save_message_def)
qed


theorem service_failure_is_persisted_witness:
  "messages (session alice_with_document) = Some []
   \<and> user_id (session alice_with_document) = Some (Some 1)
   \<and> document_content (session alice_with_document) = Some (Some ''Hello'')
   \<and> ''Hello'' \<noteq> []
   \<and> generate_content ask_failing_service (full_prompt ''Hello'' ''What does it say?'') =
       Inl ''429 quota exceeded''
   \<and> fst (handle_prompt ask_failing_service ''What does it say?'' alice_with_document) = Completed
   \<and> chat_history (users_db (snd (handle_prompt ask_failing_service ''What does it say?''
         alice_with_document))) =
       [\<lparr>chat_row_id = 1, chat_row_user_id = Some 1, chat_row_role = ''user'',
         chat_row_content = ''What does it say?''\<rparr>,
        \<lparr>chat_row_id = 2, chat_row_user_id = Some 1, chat_row_role = ''assistant'',
         chat_row_content = ''An error occurred: 429 quota exceeded''\<rparr>]"
proof -
  have m: "messages (session alice_with_document) = Some []"
    and u: "user_id (session alice_with_document) = Some (Some 1)"
    and d: "document_content (session alice_with_document) = Some (Some ''Hello'')"
    and s: "chat_history (users_db alice_with_document) = []"
           "chat_history_seq (users_db alice_with_document) = 0"
    by (simp_all add: alice_with_document_def)
  have n: "''Hello'' \<noteq> []" by simp
  have g: "generate_content ask_failing_service (full_prompt ''Hello'' ''What does it say?'') =
       Inl ''429 quota exceeded''"
    by (simp add: ask_failing_service_def idle_def)
  from service_failure_is_persisted [OF m u d n g] m u d g
  show ?thesis by (simp add: s)
qed

subsection \<open>The roles of stored rows\<close>

lemma save_message_roles:
  "roles_ok d \<Longrightarrow> r = ''user'' \<or> r = ''assistant'' \<Longrightarrow> roles_ok (save_message uid r c d)"
  by (auto simp add: save_message_def)

lemma save_turn_roles:
  "save_turn r c w = Inr w' \<Longrightarrow> roles_ok (users_db w) \<Longrightarrow> r = ''user'' \<or> r = ''assistant'' \<Longrightarrow>
   roles_ok (users_db w')"
  unfolding save_turn_def
  by (cases "user_id (session w)") (auto simp add: save_message_def)

lemma append_message_db: "append_message m w = Inr w' \<Longrightarrow> users_db w' = users_db w"
  unfolding append_message_def by (cases "messages (session w)") auto

lemma sidebar_upload_db: "sidebar_upload inp w = Inr w' \<Longrightarrow> users_db w' = users_db w"
  unfolding sidebar_upload_def by (auto split: option.splits sum.splits)

lemma init_messages_db: "init_messages w = Inr w' \<Longrightarrow> users_db w' = users_db w"
  unfolding init_messages_def get_chat_history_def by (auto split: option.splits if_splits)

lemma handle_prompt_roles:
  assumes "roles_ok (users_db w)"
  shows "roles_ok (users_db (snd (handle_prompt inp q w)))"
proof (cases "append_message \<lparr>role = ''user'', content = q\<rparr> w")
  case (Inl e)
  with assms show ?thesis by (simp add: handle_prompt_def)
next
  case w1: (Inr w1)
  from append_message_db [OF w1] assms have r1: "roles_ok (users_db w1)" by simp
  show ?thesis
  proof (cases "save_turn ''user'' q w1")
    case (Inl e)
    with w1 r1 show ?thesis by (simp add: handle_prompt_def)
  next
    case w2: (Inr w2)
    from save_turn_roles [OF w2 r1] have r2: "roles_ok (users_db w2)" by simp
    show ?thesis
    proof (cases "document_content (session w2)")
      case None
      with w1 w2 r2 show ?thesis by (simp add: handle_prompt_def)
    next
      case (Some doc)
      obtain reply reqs where a: "answer (generate_content inp) doc q (requests w2) = (reply, reqs)"
        by (cases "answer (generate_content inp) doc q (requests w2)")
      have r3: "roles_ok (users_db (w2\<lparr>requests := reqs\<rparr>))" using r2 by simp
      show ?thesis
      proof (cases "append_message \<lparr>role = ''assistant'', content = reply\<rparr> (w2\<lparr>requests := reqs\<rparr>)")
        case (Inl e)
        with w1 w2 Some a r2 show ?thesis by (simp add: handle_prompt_def)
      next
        case w4: (Inr w4)
        from append_message_db [OF w4] r3 have r4: "roles_ok (users_db w4)" by simp
        show ?thesis
        proof (cases "save_turn ''assistant'' reply w4")
          case (Inl e)
          with w1 w2 Some a w4 r4 show ?thesis by (simp add: handle_prompt_def)
        next
          case w5: (Inr w5)
          from save_turn_roles [OF w5 r4] have "roles_ok (users_db w5)" by simp
          with w1 w2 Some a w4 w5 show ?thesis by (simp add: handle_prompt_def)
        qed
      qed
    qed
  qed
qed

lemma main_app_roles:
  assumes "roles_ok (users_db w)"
  shows "roles_ok (users_db (snd (main_app inp w)))"
proof (cases "username (session w)")
  case None
  with assms show ?thesis by (simp add: main_app_def)
next
  case name: (Some name)
  show ?thesis
  proof (cases "sidebar_upload inp w")
    case (Inl e)
    with name assms show ?thesis by (simp add: main_app_def)
  next
    case w1: (Inr w1)
    from sidebar_upload_db [OF w1] assms have r1: "roles_ok (users_db w1)" by simp
    show ?thesis
    proof (cases "button_logout inp")
      case True
      with name w1 r1 show ?thesis by (simp add: main_app_def logout_def)
    next
      case False
      show ?thesis
      proof (cases "init_messages w1")
        case (Inl e)
        with name w1 False r1 show ?thesis by (simp add: main_app_def)
      next
        case w2: (Inr w2)
        from init_messages_db [OF w2] r1 have r2: "roles_ok (users_db w2)" by simp
        from handle_prompt_roles [OF r2] name w1 False w2 r2 show ?thesis
          by (simp add: main_app_def split: option.split)
      qed
    qed
  qed
qed

lemma register_user_chat_history: "chat_history (snd (register_user h s u p d)) = chat_history d"
  by (simp add: register_user_def insert_user_def)

lemma login_user_db: "snd (login_user v u p d) = d"
  by (simp add: login_user_def split: option.split)

lemma login_page_chat_history:
  "chat_history (users_db (snd (login_page h v inp w))) = chat_history (users_db w)"
proof (cases "selectbox inp")
  case Login
  obtain uid d where l: "login_user v (text_username inp) (text_password inp) (users_db w) = (uid, d)"
    by (cases "login_user v (text_username inp) (text_password inp) (users_db w)")
  with login_user_db [of v "text_username inp" "text_password inp" "users_db w"]
  have "d = users_db w" by simp
  with Login l show ?thesis by (simp add: login_page_def)
next
  case Register
  obtain res d where r: "register_user h (salt inp) (text_new_username inp)
      (text_new_password inp) (users_db w) = (res, d)"
    by (cases "register_user h (salt inp) (text_new_username inp) (text_new_password inp) (users_db w)")
  with register_user_chat_history [of h "salt inp" "text_new_username inp" "text_new_password inp" "users_db w"]
  have "chat_history d = chat_history (users_db w)" by simp
  with Register r show ?thesis by (cases res) (simp_all add: login_page_def)
qed

lemma script_roles:
  assumes "roles_ok (users_db w)"
  shows "roles_ok (users_db (snd (script h v inp w)))"
proof -
  let ?w0 = "w\<lparr>users_db := init_db (users_db w)\<rparr>"
  let ?w1 = "if logged_in (session ?w0) = None
             then ?w0\<lparr>session := (session ?w0)\<lparr>logged_in := Some False\<rparr>\<rparr> else ?w0"
  have r1: "roles_ok (users_db ?w1)" using assms by (simp add: init_db_def)
  have "script h v inp w =
     (if logged_in (session ?w1) = Some True then main_app inp ?w1 else login_page h v inp ?w1)"
    by (simp add: script_def Let_def)
  with main_app_roles [OF r1, of inp] login_page_chat_history [of h v inp ?w1] r1
  show ?thesis by (simp split: if_splits)
qed

lemma runs_roles:
  "roles_ok (users_db w) \<Longrightarrow> roles_ok (users_db (runs h v inps w))"
proof (induction inps arbitrary: w)
  case Nil
  then show ?case by simp
next
  case (Cons inp inps)
  show ?case
    unfolding runs.simps
    by (rule Cons.IH) (rule script_roles [OF Cons.prems])
qed


text \<open>
  C8. A call of \<^verbatim>\<open>save_message\<close> adds one row, whole: the next identifier, the user, the
  role and the content it was given, after the rows that were there, and nothing else
  of the database changes. The script calls it with the roles \<open>user\<close> and \<open>assistant\<close>
  only, so in every state that executions of the script reach from the empty database,
  every stored row has one of these two roles.
\<close>

theorem roles_are_user_or_assistant:
  "chat_history (save_message uid r c d) =
     chat_history d @ [\<lparr>chat_row_id = chat_history_seq d + 1, chat_row_user_id = uid,
                        chat_row_role = r, chat_row_content = c\<rparr>]
   \<and> length (chat_history (save_message uid r c d)) = length (chat_history d) + 1
   \<and> users (save_message uid r c d) = users d
   \<and> (\<forall>row \<in> set (chat_history (users_db (runs h v inps initial_world))).
         chat_row_role row = ''user'' \<or> chat_row_role row = ''assistant'')"
proof -
  have "roles_ok (users_db initial_world)"
    by (simp add: initial_world_def empty_db_def)
  then have "roles_ok (users_db (runs h v inps initial_world))"
    by (rule runs_roles)
  then show ?thesis
    by (simp add: save_message_def)
qed

theorem roles_are_user_or_assistant_witness:
  "chat_history (users_db (runs plain_hash plain_verify (alice_logs_in @ [upload_and_ask])
      initial_world)) =
     [\<lparr>chat_row_id = 1, chat_row_user_id = Some 1, chat_row_role = ''user'',
       chat_row_content = ''What does it say?''\<rparr>,
      \<lparr>chat_row_id = 2, chat_row_user_id = Some 1, chat_row_role = ''assistant'',
       chat_row_content = ''ok''\<rparr>]
   \<and> list_all (\<lambda>row. chat_row_role row = ''user'' \<or> chat_row_role row = ''assistant'')
       (chat_history (users_db (runs plain_hash plain_verify (alice_logs_in @ [upload_and_ask])
          initial_world)))"
proof -
  have rows: "chat_history (users_db (runs plain_hash plain_verify (alice_logs_in @ [upload_and_ask])
      initial_world)) =
     [\<lparr>chat_row_id = 1, chat_row_user_id = Some 1, chat_row_role = ''user'',
       chat_row_content = ''What does it say?''\<rparr>,
      \<lparr>chat_row_id = 2, chat_row_user_id = Some 1, chat_row_role = ''assistant'',
       chat_row_content = ''ok''\<rparr>]"
    by (simp add: model_defs)
  from roles_are_user_or_assistant [of "Some 1" "''user''" "[]" empty_db plain_hash plain_verify
      "alice_logs_in @ [upload_and_ask]"]
  have "list_all (\<lambda>row. chat_row_role row = ''user'' \<or> chat_row_role row = ''assistant'')
       (chat_history (users_db (runs plain_hash plain_verify (alice_logs_in @ [upload_and_ask])
          initial_world)))"
    unfolding list_all_iff by blast
  with rows show ?thesis by blast
qed

subsection \<open>Logout\<close>

lemma logout_session:
  "session (logout w) =
     \<lparr>logged_in = Some False, user_id = Some None, username = Some None,
      document_content = Some None, messages = messages (session w)\<rparr>
   \<and> users_db (logout w) = users_db w"
  by (simp add: logout_def)

lemma init_messages_keeps_transcript:
  "messages (session w) = Some (m # ms) \<Longrightarrow> init_messages w = Inr w"
  by (simp add: init_messages_def)

text \<open>
  C1, evaluated at a session in which alice logs in, uploads a document, asks a
  question and logs out, and bob then logs in. The Logout button assigns
  \<^verbatim>\<open>logged_in\<close>, \<^verbatim>\<open>user_id\<close>, \<^verbatim>\<open>username\<close> and \<^verbatim>\<open>document_content\<close> and not \<^verbatim>\<open>messages\<close>:
  after the logout the session still holds alice's transcript, and since lines 194 and
  195 read the database only for an absent or empty transcript, bob's session shows
  alice's two messages although the database holds none for bob.
\<close>

theorem logout_keeps_transcript:
  "session (runs plain_hash plain_verify alice_logs_out initial_world) =
     \<lparr>logged_in = Some False, user_id = Some None, username = Some None,
      document_content = Some None,
      messages = Some [\<lparr>role = ''user'', content = ''What does it say?''\<rparr>,
                       \<lparr>role = ''assistant'', content = ''ok''\<rparr>]\<rparr>
   \<and> session (runs plain_hash plain_verify bob_logs_in initial_world) =
     \<lparr>logged_in = Some True, user_id = Some (Some 2), username = Some (Some ''bob''),
      document_content = Some None,
      messages = Some [\<lparr>role = ''user'', content = ''What does it say?''\<rparr>,
                       \<lparr>role = ''assistant'', content = ''ok''\<rparr>]\<rparr>
   \<and> fst (get_chat_history (Some 2)
         (users_db (runs plain_hash plain_verify bob_logs_in initial_world))) = []"
  by (simp add: model_defs)

subsection \<open>A question before any upload\<close>

lemma answer_without_document:
  "answer gen None q reqs = (no_document, reqs) \<and> answer gen (Some []) q reqs = (no_document, reqs)"
  by (simp add: answer_def)

lemma handle_prompt_unset_document:
  assumes "messages (session w) = Some ms" and "user_id (session w) = Some uid"
    and "document_content (session w) = None"
  shows "handle_prompt inp q w =
    (Raised (AttributeError ''document_content''),
     w\<lparr>users_db := save_message uid ''user'' q (users_db w),
       session := (session w)\<lparr>messages := Some (ms @ [\<lparr>role = ''user'', content = q\<rparr>])\<rparr>\<rparr>)"
  using assms by (simp add: handle_prompt_def append_message_def save_turn_def)

lemma alice_logs_in_state:
  "runs plain_hash plain_verify alice_logs_in initial_world =
   \<lparr>users_db = \<lparr>users = [\<lparr>user_row_id = 1, user_row_username = ''alice'',
                            user_row_password_hash = ''pw123''\<rparr>,
                          \<lparr>user_row_id = 2, user_row_username = ''bob'',
                            user_row_password_hash = ''pw456''\<rparr>],
                 users_seq = 2, chat_history = [], chat_history_seq = 0\<rparr>,
    session = \<lparr>logged_in = Some True, user_id = Some (Some 1), username = Some (Some ''alice''),
                document_content = None, messages = Some []\<rparr>,
    requests = []\<rparr>"
  by (simp add: model_defs)

text \<open>
  C6, evaluated at a fresh session: alice registers, logs in and asks a question
  without having uploaded anything. No line has assigned \<^verbatim>\<open>document_content\<close>, so the
  key is absent and line 213 raises AttributeError. The execution ends there: the
  sentinel is not produced, the transcript holds the question alone, and the model
  service is not called.
\<close>

theorem question_without_upload_raises:
  "document_content (session (runs plain_hash plain_verify alice_logs_in initial_world)) = None
   \<and> fst (script plain_hash plain_verify (question ''What does it say?'')
       (runs plain_hash plain_verify alice_logs_in initial_world)) =
     Raised (AttributeError ''document_content'')
   \<and> messages (session (snd (script plain_hash plain_verify (question ''What does it say?'')
       (runs plain_hash plain_verify alice_logs_in initial_world)))) =
     Some [\<lparr>role = ''user'', content = ''What does it say?''\<rparr>]
   \<and> requests (snd (script plain_hash plain_verify (question ''What does it say?'')
       (runs plain_hash plain_verify alice_logs_in initial_world))) = []"
  unfolding alice_logs_in_state by (simp add: model_defs)

text \<open>
  C9, evaluated at the same fresh session: the question is stored as a \<open>user\<close> row
  before line 213 raises, and no \<open>assistant\<close> row follows it. One row is appended, not
  two.
\<close>

theorem question_without_upload_saves_one_row:
  "chat_history (users_db (runs plain_hash plain_verify alice_logs_in initial_world)) = []
   \<and> chat_history (users_db (snd (script plain_hash plain_verify (question ''What does it say?'')
       (runs plain_hash plain_verify alice_logs_in initial_world)))) =
     [\<lparr>chat_row_id = 1, chat_row_user_id = Some 1, chat_row_role = ''user'',
       chat_row_content = ''What does it say?''\<rparr>]"
  unfolding alice_logs_in_state by (simp add: model_defs)

end
